theory Spec2Isabelle
  imports Complex_Main "HOL-Library.Multiset"
begin

section \<open>Values exchanged with the outside world\<close>

text \<open>
  The tracker of \<^verbatim>\<open>arb_tracker.py\<close> talks to two HTTP services, reads the wall clock and
  keeps its state in module-level globals. The embedding makes each of these explicit:
  the services' replies and the clock readings are inputs of the functions, the globals
  are a record that every handler takes and returns.

  Python's \<^verbatim>\<open>float\<close> is modelled by \<^typ>\<open>real\<close>: arithmetic is exact here, rounding,
  infinities and NaN are not modelled. A parsed JSON object is the list of its members,
  each key once.
\<close>

datatype json =
    JNull
  | JBool bool
  | JNum real
  | JStr string
  | JArr "json list"
  | JObj "(string \<times> json) list"

datatype error = ValueError | TypeError | ZeroDivisionError | FileNotFoundError

text \<open>The outcome of \<^verbatim>\<open>requests.get(url).json()\<close>: the call raised, or a parsed body.\<close>

datatype reply = Failed | Body json

text \<open>Python's truth value of a parsed JSON value (\<^verbatim>\<open>if bid_price:\<close>).\<close>

fun truthy :: "json \<Rightarrow> bool" where
  "truthy JNull = False"
| "truthy (JBool b) = b"
| "truthy (JNum x) = (x \<noteq> 0)"
| "truthy (JStr s) = (s \<noteq> [])"
| "truthy (JArr xs) = (xs \<noteq> [])"
| "truthy (JObj kvs) = (kvs \<noteq> [])"

text \<open>
  Python's \<^verbatim>\<open>float(v)\<close>. The reading of a string as a number is Python's own and is a
  parameter \<open>parse_float\<close> (\<open>None\<close> where \<^verbatim>\<open>float\<close> raises \<^verbatim>\<open>ValueError\<close>).
\<close>

fun py_float :: "(string \<Rightarrow> real option) \<Rightarrow> json \<Rightarrow> error + real" where
  "py_float parse_float (JNum x) = Inr x"
| "py_float parse_float (JBool b) = Inr (if b then 1 else 0)"
| "py_float parse_float (JStr s) =
     (case parse_float s of None \<Rightarrow> Inl ValueError | Some x \<Rightarrow> Inr x)"
| "py_float parse_float JNull = Inl TypeError"
| "py_float parse_float (JArr xs) = Inl TypeError"
| "py_float parse_float (JObj kvs) = Inl TypeError"

text \<open>Python's \<^verbatim>\<open>a / b\<close> on floats raises on a zero divisor.\<close>

definition py_div :: "real \<Rightarrow> real \<Rightarrow> error + real" where
  "py_div a b = (if b = 0 then Inl ZeroDivisionError else Inr (a / b))"

definition bind_err :: "error + 'a \<Rightarrow> ('a \<Rightarrow> error + 'b) \<Rightarrow> error + 'b" where
  "bind_err m f = (case m of Inl e \<Rightarrow> Inl e | Inr x \<Rightarrow> f x)"

text \<open>\<^verbatim>\<open>data[key]\<close>: only a dictionary that has the key answers.\<close>

fun subscript :: "json \<Rightarrow> string \<Rightarrow> json option" where
  "subscript (JObj kvs) k = map_of kvs k"
| "subscript _ k = None"

section \<open>Clock readings and timestamps\<close>

text \<open>
  A reading of \<^verbatim>\<open>datetime.now()\<close> is a number of microseconds; naive datetimes are
  compared as these numbers are. The \<^verbatim>\<open>'%Y-%m-%d %H:%M:%S'\<close> rendering keeps the whole
  seconds of a reading and is one-to-one on them, so a timestamp is held as that number
  of seconds: \<open>strftime\<close> drops the microseconds, \<open>strptime\<close> reads the seconds back as a
  datetime.
\<close>

type_synonym datetime = int
type_synonym timestamp = int

definition strftime :: "datetime \<Rightarrow> timestamp" where
  "strftime d = d div 1000000"

definition strptime :: "timestamp \<Rightarrow> datetime" where
  "strptime t = t * 1000000"

section \<open>Rate fetchers\<close>

text \<open>
  \<^verbatim>\<open>get_valr_usdc_zar_rate\<close>: every exception is caught and turned into \<^verbatim>\<open>None\<close>; a
  body that is no dictionary has no \<^verbatim>\<open>.get\<close>; a missing or falsy \<^verbatim>\<open>bidPrice\<close> gives
  \<^verbatim>\<open>None\<close>.
\<close>

definition get_valr_usdc_zar_rate :: "(string \<Rightarrow> real option) \<Rightarrow> reply \<Rightarrow> real option" where
  "get_valr_usdc_zar_rate parse_float r =
     (case r of
        Failed \<Rightarrow> None
      | Body (JObj kvs) \<Rightarrow>
          (case map_of kvs ''bidPrice'' of
             None \<Rightarrow> None
           | Some bid_price \<Rightarrow>
               if truthy bid_price
               then (case py_float parse_float bid_price of Inl e \<Rightarrow> None | Inr x \<Rightarrow> Some x)
               else None)
      | Body _ \<Rightarrow> None)"

text \<open>Python's \<^verbatim>\<open>1 / v\<close> for a parsed JSON value \<open>v\<close>.\<close>

fun one_over :: "json \<Rightarrow> error + real" where
  "one_over (JNum x) = py_div 1 x"
| "one_over (JBool b) = py_div 1 (if b then 1 else 0)"
| "one_over _ = Inl TypeError"

definition get_exchange_rate :: "reply \<Rightarrow> real option" where
  "get_exchange_rate r =
     (case r of
        Failed \<Rightarrow> None
      | Body data \<Rightarrow>
          (case subscript data ''result'' of
             None \<Rightarrow> None
           | Some res \<Rightarrow>
               if res = JStr ''success''
               then (case subscript data ''conversion_rates'' of
                       None \<Rightarrow> None
                     | Some rates \<Rightarrow>
                         (case subscript rates ''USD'' of
                            None \<Rightarrow> None
                          | Some usd \<Rightarrow>
                              (case one_over usd of
                                 Inl e \<Rightarrow> None
                               | Inr usd_to_zar_rate \<Rightarrow> Some usd_to_zar_rate)))
               else None))"

section \<open>Profit calculator\<close>

record report =
  timestamp :: timestamp
  valr_rate :: real
  market_rate :: real
  spread :: real
  initial_zar :: real
  usd_purchased :: real
  wire_fee :: real
  final_zar :: real
  profit_zar :: real
  profit_percent :: real

text \<open>\<^verbatim>\<open>not rate\<close> for a fetched rate: \<^verbatim>\<open>None\<close> and \<^verbatim>\<open>0.0\<close> are both falsy.\<close>

definition falsy :: "real option \<Rightarrow> bool" where
  "falsy r = (case r of None \<Rightarrow> True | Some x \<Rightarrow> x = 0)"

text \<open>The calculator's local variables, as functions of what they are computed from.\<close>

definition wire_transfer_fee :: "real \<Rightarrow> real" where
  "wire_transfer_fee usd = max (0.0013 * usd) 10"

definition usd_after_wire :: "real \<Rightarrow> real" where
  "usd_after_wire usd = usd - wire_transfer_fee usd"

definition tick_size :: real where
  "tick_size = 0.001"

definition sell_rate :: "real \<Rightarrow> real" where
  "sell_rate highest_bid_rate = highest_bid_rate + tick_size"

definition withdrawal_fee :: real where
  "withdrawal_fee = 30"

text \<open>
  What one call of the calculator reads from outside: the two services' replies and the
  clock at the moment the report is built.
\<close>

record world =
  valr_reply :: reply
  fx_reply :: reply
  clock :: datetime

text \<open>
  Lines 63 to 95 of \<^verbatim>\<open>calculate_arb_profit\<close>, as a function of the two fetched rates
  (\<open>None\<close> for Python's \<^verbatim>\<open>None\<close>), the amount \<open>usd\<close>, the global
  \<open>initial_investment\<close> and the clock reading. The result is \<open>Inr None\<close> for Python's
  \<^verbatim>\<open>None\<close>, \<open>Inl e\<close> for an exception that leaves the function.
\<close>

definition arb_profit_from_rates ::
  "real \<Rightarrow> datetime \<Rightarrow> real \<Rightarrow> real option \<Rightarrow> real option \<Rightarrow> error + report option" where
  "arb_profit_from_rates initial_investment now usd highest_bid_rate mkt =
     (if falsy highest_bid_rate \<or> falsy mkt then Inr None
      else case (highest_bid_rate, mkt) of
        (Some hb, Some mr) \<Rightarrow>
          (let zar_from_usdc = usd_after_wire usd * sell_rate hb;
               final = zar_from_usdc - withdrawal_fee;
               profit = final - initial_investment
           in bind_err
                (if initial_investment > 0
                 then bind_err (py_div profit initial_investment) (\<lambda>q. Inr (q * 100))
                 else Inr 0)
                (\<lambda>pct. bind_err (py_div hb mr)
                (\<lambda>ratio. Inr (Some
                   \<lparr> timestamp = strftime now,
                     valr_rate = hb,
                     market_rate = mr,
                     spread = (ratio - 1) * 100,
                     initial_zar = initial_investment,
                     usd_purchased = usd,
                     wire_fee = wire_transfer_fee usd,
                     final_zar = final,
                     profit_zar = profit,
                     profit_percent = pct \<rparr>))))
      | _ \<Rightarrow> Inr None)"

text \<open>
  \<^verbatim>\<open>calculate_arb_profit(usd_purchased=None)\<close>. \<open>env_usd\<close> is
  \<^verbatim>\<open>float(os.getenv('USD_PURCHASED', 0))\<close>, the default of a call without argument.
\<close>

definition calculate_arb_profit ::
  "(string \<Rightarrow> real option) \<Rightarrow> real \<Rightarrow> real \<Rightarrow> world \<Rightarrow> real option \<Rightarrow> error + report option" where
  "calculate_arb_profit parse_float env_usd initial_investment w usd_arg =
     (let usd = (case usd_arg of None \<Rightarrow> env_usd | Some u \<Rightarrow> u);
          highest_bid_rate = get_valr_usdc_zar_rate parse_float (valr_reply w);
          mkt = get_exchange_rate (fx_reply w)
      in arb_profit_from_rates initial_investment (clock w) usd highest_bid_rate mkt)"

section \<open>The example of the specification\<close>

text \<open>
  Replies on which the fetchers return 18.50 and 18.40: the market summary carries the bid
  as a string, the conversion table the price of one rand in dollars.
\<close>

definition example_parse_float :: "string \<Rightarrow> real option" where
  "example_parse_float s =
     (if s = ''18.50'' then Some 18.5 else if s = ''0'' then Some 0 else None)"

definition example_world :: world where
  "example_world =
     \<lparr> valr_reply = Body (JObj [(''bidPrice'', JStr ''18.50'')]),
       fx_reply = Body (JObj [(''result'', JStr ''success''),
                              (''conversion_rates'', JObj [(''USD'', JNum (1 / 18.4))])]),
       clock = 1700000000123456 \<rparr>"

section \<open>Globals and the objects of the history\<close>

text \<open>
  A dictionary stored in \<^verbatim>\<open>profit_history\<close>: the ten keys of a report and the key
  \<^verbatim>\<open>'datetime'\<close>, which \<^verbatim>\<open>del item['datetime']\<close> removes (\<open>None\<close>).
\<close>

record hist_item =
  item_report :: report
  item_datetime :: "datetime option"

type_synonym addr = nat

text \<open>
  The module's globals and what they refer to. \<^verbatim>\<open>profit_history\<close> is a list of references
  to dictionaries: \<open>heap\<close> maps a reference to the dictionary it denotes, \<open>next_addr\<close> is
  the next unused reference. The global \<^verbatim>\<open>usd_purchased\<close> is the field
  \<open>usd_purchased_global\<close> (the report has a key of the same name). \<open>env_usd\<close> is
  \<^verbatim>\<open>float(os.getenv('USD_PURCHASED', 0))\<close>, fixed when the process starts; \<open>env_file\<close>
  holds the lines of the file \<^verbatim>\<open>.env\<close>, \<open>None\<close> when there is no such file.
\<close>

record state =
  initial_investment :: real
  usd_purchased_global :: real
  profit_history :: "addr list"
  last_refresh_time :: "timestamp option"
  heap :: "addr \<Rightarrow> hist_item"
  next_addr :: addr
  env_usd :: real
  env_file :: "string list option"

definition blank_item :: hist_item where
  "blank_item =
     \<lparr> item_report =
         \<lparr> timestamp = 0, valr_rate = 0, market_rate = 0, spread = 0, initial_zar = 0,
           usd_purchased = 0, wire_fee = 0, final_zar = 0, profit_zar = 0, profit_percent = 0 \<rparr>,
       item_datetime = None \<rparr>"

text \<open>
  The state after the module is loaded: both settings read from the environment, an empty
  history. No reference is in use; the cells of the store hold a blank dictionary that
  nothing reads.
\<close>

definition init_state :: "real \<Rightarrow> real \<Rightarrow> string list option \<Rightarrow> state" where
  "init_state rands usd file =
     \<lparr> initial_investment = rands,
       usd_purchased_global = usd,
       profit_history = [],
       last_refresh_time = None,
       heap = (\<lambda>a. blank_item),
       next_addr = 0,
       env_usd = usd,
       env_file = file \<rparr>"

datatype body =
    ReportBody report
  | ErrorBody string
  | HistoryBody "hist_item list"
  | SuccessBody bool

datatype response = Response nat body

section \<open>History buffer\<close>

text \<open>
  The key both sorts use: the \<^verbatim>\<open>'datetime'\<close> of the dictionary when it has one, else its
  timestamp read back as a datetime.
\<close>

definition sort_datetime :: "hist_item \<Rightarrow> datetime" where
  "sort_datetime x =
     (case item_datetime x of
        Some d \<Rightarrow> d
      | None \<Rightarrow> strptime (timestamp (item_report x)))"

text \<open>
  One round of the loop of \<^verbatim>\<open>update_profit_history\<close>, without the sleep: \<open>w\<close> is what the
  calculator reads, \<open>now_dt\<close> the clock reading stored under \<^verbatim>\<open>'datetime'\<close>. An exception
  would end the thread and leave the globals as they are.
\<close>

definition update_profit_history ::
  "(string \<Rightarrow> real option) \<Rightarrow> world \<Rightarrow> datetime \<Rightarrow> state \<Rightarrow> state \<times> (error + unit)" where
  "update_profit_history parse_float w now_dt s =
     (case calculate_arb_profit parse_float (env_usd s) (initial_investment s) w None of
        Inl e \<Rightarrow> (s, Inl e)
      | Inr None \<Rightarrow> (s, Inr ())
      | Inr (Some result) \<Rightarrow>
          (let a = next_addr s;
               heap' = (heap s)(a := \<lparr> item_report = result, item_datetime = Some now_dt \<rparr>);
               ph = profit_history s @ [a];
               ph' = (if length ph > 1000 then drop (length ph - 1000) ph else ph)
           in (s\<lparr> heap := heap', next_addr := Suc a, profit_history := ph',
                  last_refresh_time := Some (timestamp result) \<rparr>, Inr ())))"

text \<open>The amount \<^verbatim>\<open>/get_profit_data\<close> computes with: the query parameter when it is given
  and not empty, else the global.\<close>

definition usd_purchased_value ::
  "(string \<Rightarrow> real option) \<Rightarrow> string option \<Rightarrow> real \<Rightarrow> error + real" where
  "usd_purchased_value parse_float usd_purchased_param usd_global =
     (case usd_purchased_param of
        None \<Rightarrow> Inr usd_global
      | Some p \<Rightarrow> if p \<noteq> [] then py_float parse_float (JStr p) else Inr usd_global)"

text \<open>
  \<^verbatim>\<open>get_profit_data\<close>. The dictionary appended is a fresh copy of the result with the key
  \<^verbatim>\<open>'datetime'\<close>; \<^verbatim>\<open>list.sort\<close> is stable, as \<^const>\<open>sort_key\<close> is, and
  \<^verbatim>\<open>pop(0)\<close> drops the first element of a list that is not empty here.
\<close>

definition get_profit_data ::
  "(string \<Rightarrow> real option) \<Rightarrow> string option \<Rightarrow> world \<Rightarrow> datetime \<Rightarrow> state
     \<Rightarrow> state \<times> (error + response)" where
  "get_profit_data parse_float usd_purchased_param w now_dt s =
     (case usd_purchased_value parse_float usd_purchased_param (usd_purchased_global s) of
        Inl e \<Rightarrow> (s, Inl e)
      | Inr usd_value \<Rightarrow>
          (case calculate_arb_profit parse_float (env_usd s) (initial_investment s) w
                  (Some usd_value) of
             Inl e \<Rightarrow> (s, Inl e)
           | Inr None \<Rightarrow> (s, Inr (Response 500 (ErrorBody ''Failed to calculate profit'')))
           | Inr (Some result) \<Rightarrow>
               ((if \<not> list_ex (\<lambda>history_item.
                          timestamp (item_report (heap s history_item)) = timestamp result)
                        (profit_history s)
                 then
                   (let a = next_addr s;
                        heap' = (heap s)(a := \<lparr> item_report = result,
                                                 item_datetime = Some now_dt \<rparr>);
                        ph = profit_history s @ [a];
                        ph' = (if length ph > 1000
                               then tl (sort_key (\<lambda>x. sort_datetime (heap' x)) ph)
                               else ph)
                    in s\<lparr> heap := heap', next_addr := Suc a, profit_history := ph' \<rparr>)
                 else s),
                Inr (Response 200 (ReportBody result)))))"

text \<open>\<^verbatim>\<open>if 'datetime' in item: del item['datetime']\<close>, on the dictionary itself.\<close>

definition del_datetime :: "hist_item \<Rightarrow> hist_item" where
  "del_datetime x = (if item_datetime x \<noteq> None then x\<lparr> item_datetime := None \<rparr> else x)"

text \<open>
  \<^verbatim>\<open>get_profit_history\<close>. \<^verbatim>\<open>profit_history.copy()\<close> copies the list of references, not the
  dictionaries, so the loop deletes the key from the dictionaries the history refers to.
\<close>

definition get_profit_history :: "state \<Rightarrow> state \<times> (error + response)" where
  "get_profit_history s =
     (let history_copy = profit_history s;
          sorted_copy = sort_key (\<lambda>x. sort_datetime (heap s x)) history_copy;
          heap' = fold (\<lambda>item h. h(item := del_datetime (h item))) sorted_copy (heap s)
      in (s\<lparr> heap := heap' \<rparr>, Inr (Response 200 (HistoryBody (map heap' sorted_copy)))))"

section \<open>Settings\<close>

text \<open>\<^verbatim>\<open>key in data\<close> on a parsed JSON body: a key of a dictionary, an element of a list,
  a piece of a string; the other values have no \<^verbatim>\<open>in\<close>.\<close>

fun is_infix :: "string \<Rightarrow> string \<Rightarrow> bool" where
  "is_infix k [] = (k = [])"
| "is_infix k (c # cs) = (take (length k) (c # cs) = k \<or> is_infix k cs)"

fun contains :: "json \<Rightarrow> string \<Rightarrow> error + bool" where
  "contains (JObj kvs) k = Inr (map_of kvs k \<noteq> None)"
| "contains (JArr xs) k = Inr (List.member xs (JStr k))"
| "contains (JStr t) k = Inr (is_infix k t)"
| "contains _ k = Inl TypeError"

text \<open>\<^verbatim>\<open>float(data[key])\<close>: only a dictionary can be subscripted by a string.\<close>

definition float_of_key :: "(string \<Rightarrow> real option) \<Rightarrow> json \<Rightarrow> string \<Rightarrow> error + real" where
  "float_of_key parse_float data k =
     (case subscript data k of
        None \<Rightarrow> Inl TypeError
      | Some v \<Rightarrow> py_float parse_float v)"

definition starts_with :: "string \<Rightarrow> string \<Rightarrow> bool" where
  "starts_with p line = (take (length p) line = p)"

definition newline :: string where
  "newline = [CHR 0x0A]"

text \<open>What the rewriting loop writes for one line; \<open>fmt\<close> is Python's rendering of a float
  in an f-string.\<close>

definition rewrite_line :: "(real \<Rightarrow> string) \<Rightarrow> real \<Rightarrow> real \<Rightarrow> string \<Rightarrow> string" where
  "rewrite_line fmt ii usd line =
     (if starts_with ''RANDS='' line then ''RANDS='' @ fmt ii @ newline
      else if starts_with ''USD_PURCHASED='' line then ''USD_PURCHASED='' @ fmt usd @ newline
      else line)"

text \<open>
  \<^verbatim>\<open>update_settings\<close>. Each assignment to a global happens before the next statement can
  raise, so the state returned with an exception holds the assignments made until then.
\<close>

definition update_settings ::
  "(string \<Rightarrow> real option) \<Rightarrow> (real \<Rightarrow> string) \<Rightarrow> json \<Rightarrow> state \<Rightarrow> state \<times> (error + response)" where
  "update_settings parse_float fmt data s =
     (case contains data ''initial_investment'' of
        Inl e \<Rightarrow> (s, Inl e)
      | Inr has_ii \<Rightarrow>
          (case (if has_ii then float_of_key parse_float data ''initial_investment''
                 else Inr (initial_investment s)) of
             Inl e \<Rightarrow> (s, Inl e)
           | Inr ii \<Rightarrow>
               (let s1 = s\<lparr> initial_investment := ii \<rparr> in
                case contains data ''usd_purchased'' of
                  Inl e \<Rightarrow> (s1, Inl e)
                | Inr has_usd \<Rightarrow>
                    (case (if has_usd then float_of_key parse_float data ''usd_purchased''
                           else Inr (usd_purchased_global s1)) of
                       Inl e \<Rightarrow> (s1, Inl e)
                     | Inr usd \<Rightarrow>
                         (let s2 = s1\<lparr> usd_purchased_global := usd \<rparr> in
                          case env_file s2 of
                            None \<Rightarrow> (s2, Inl FileNotFoundError)
                          | Some lines \<Rightarrow>
                              (s2\<lparr> env_file := Some (map (rewrite_line fmt ii usd) lines) \<rparr>,
                               Inr (Response 200 (SuccessBody True))))))))"

section \<open>Runs\<close>

text \<open>What can happen to the globals: a round of the polling loop or one of the three
  requests, each with what it reads from outside.\<close>

datatype event =
    Poll world datetime
  | GetProfitData "string option" world datetime
  | GetProfitHistory
  | UpdateSettings json

fun step :: "(string \<Rightarrow> real option) \<Rightarrow> (real \<Rightarrow> string) \<Rightarrow> event \<Rightarrow> state \<Rightarrow> state" where
  "step parse_float fmt (Poll w now_dt) s = fst (update_profit_history parse_float w now_dt s)"
| "step parse_float fmt (GetProfitData p w now_dt) s = fst (get_profit_data parse_float p w now_dt s)"
| "step parse_float fmt GetProfitHistory s = fst (get_profit_history s)"
| "step parse_float fmt (UpdateSettings data) s = fst (update_settings parse_float fmt data s)"

definition run :: "(string \<Rightarrow> real option) \<Rightarrow> (real \<Rightarrow> string) \<Rightarrow> event list \<Rightarrow> state \<Rightarrow> state" where
  "run parse_float fmt evs s = fold (step parse_float fmt) evs s"

section \<open>Runs in which the clock never goes back\<close>

text \<open>
  A run is chronological from \<open>t\<close> on when no clock reading of a round of the loop or of a
  request to \<^verbatim>\<open>/get_profit_data\<close> is earlier than the reading before it, \<open>t\<close> being the
  last reading so far. \<open>last_reading\<close> is the last reading of a run.
\<close>

fun chronological :: "datetime \<Rightarrow> event list \<Rightarrow> bool" where
  "chronological t [] = True"
| "chronological t (Poll w d # evs) = (t \<le> clock w \<and> clock w \<le> d \<and> chronological d evs)"
| "chronological t (GetProfitData p w d # evs) =
     (t \<le> clock w \<and> clock w \<le> d \<and> chronological d evs)"
| "chronological t (ev # evs) = chronological t evs"

fun last_reading :: "datetime \<Rightarrow> event list \<Rightarrow> datetime" where
  "last_reading t [] = t"
| "last_reading t (Poll w d # evs) = last_reading d evs"
| "last_reading t (GetProfitData p w d # evs) = last_reading d evs"
| "last_reading t (ev # evs) = last_reading t evs"

text \<open>
  A history in chronological order at time \<open>t\<close>: the sort keys and the timestamps ascend
  along the list, none is later than \<open>t\<close>, and every reference is in use.
\<close>

definition ordered :: "datetime \<Rightarrow> (addr \<Rightarrow> hist_item) \<Rightarrow> addr \<Rightarrow> addr list \<Rightarrow> bool" where
  "ordered t h n xs \<longleftrightarrow>
     sorted (map (\<lambda>a. sort_datetime (h a)) xs)
     \<and> sorted (map (\<lambda>a. timestamp (item_report (h a))) xs)
     \<and> list_all (\<lambda>a. a < n \<and> sort_datetime (h a) \<le> t
                      \<and> strptime (timestamp (item_report (h a))) \<le> t) xs"

definition ordered_state :: "datetime \<Rightarrow> state \<Rightarrow> bool" where
  "ordered_state t s = ordered t (heap s) (next_addr s) (profit_history s)"

section \<open>Concrete runs\<close>

text \<open>The inputs at which the theorems below are evaluated.\<close>

text \<open>The reference rate cannot be fetched.\<close>

definition failed_world :: world where
  "failed_world = example_world\<lparr> fx_reply := Failed \<rparr>"

text \<open>A bid price that is numerically zero: the number 0, or a string that reads as 0.\<close>

definition bid_is_zero :: "(string \<Rightarrow> real option) \<Rightarrow> json \<Rightarrow> bool" where
  "bid_is_zero parse_float b =
     (case b of JNum x \<Rightarrow> x = 0 | JStr t \<Rightarrow> parse_float t = Some 0 | _ \<Rightarrow> False)"

definition zero_bid_world :: world where
  "zero_bid_world = example_world\<lparr> valr_reply := Body (JObj [(''bidPrice'', JStr ''0'')]) \<rparr>"

definition example_fmt :: "real \<Rightarrow> string" where
  "example_fmt x = (if x = 20000 then ''20000.0'' else if x = 1000 then ''1000.0'' else ''0.0'')"

text \<open>One request to \<^verbatim>\<open>/get_profit_data\<close> after the start.\<close>

definition first_request :: state where
  "first_request =
     fst (get_profit_data example_parse_float None example_world 1700000000123999
            (init_state 18000 1000 None))"

text \<open>A round of the polling loop that falls into the second of that request.\<close>

definition same_second_world :: world where
  "same_second_world = example_world\<lparr> clock := 1700000000700000 \<rparr>"

definition request_then_poll :: state where
  "request_then_poll =
     run example_parse_float example_fmt
       [GetProfitData None example_world 1700000000123999,
        Poll same_second_world 1700000000700400]
       (init_state 18000 1000 None)"



text \<open>
  A polling loop across the end of daylight saving time: the first round reads 01:58:00
  local time, the clock is then set back by an hour, and round \<open>i\<close> reads 5 minutes more
  than round \<open>i - 1\<close> from 01:03:01 on. The second reading of a round comes 250
  microseconds after the first.
\<close>

definition dst_clock :: "nat \<Rightarrow> datetime" where
  "dst_clock i = (if i = 0 then 7080000000 else (3481 + 300 * int i) * 1000000)"

definition dst_poll :: "nat \<Rightarrow> event" where
  "dst_poll i = Poll (example_world\<lparr> clock := dst_clock i \<rparr>) (dst_clock i + 250)"

definition dst_full :: state where
  "dst_full =
     run example_parse_float example_fmt (map dst_poll [0..<1000]) (init_state 18000 1000 None)"

definition dst_after :: state where
  "dst_after = step example_parse_float example_fmt (dst_poll 1000) dst_full"

text \<open>What \<open>n\<close> of these rounds leave behind.\<close>

definition dst_inv :: "nat \<Rightarrow> state \<Rightarrow> bool" where
  "dst_inv n s \<longleftrightarrow>
     profit_history s = [0..<n] \<and> next_addr s = n
     \<and> (\<forall>a<n. item_datetime (heap s a) = Some (dst_clock a + 250))"

section \<open>The calculator\<close>

lemma example_valr_rate:
  "get_valr_usdc_zar_rate example_parse_float (valr_reply example_world) = Some 18.5"
  by (simp add: get_valr_usdc_zar_rate_def example_world_def example_parse_float_def)

lemma example_market_rate: "get_exchange_rate (fx_reply example_world) = Some 18.4"
  by (simp add: get_exchange_rate_def example_world_def py_div_def)

text \<open>With two rates that are not zero the calculator builds the report and raises nothing.\<close>

lemma from_rates_report:
  assumes "v \<noteq> 0" "m \<noteq> 0"
  shows "arb_profit_from_rates ii now usd (Some v) (Some m) =
     Inr (Some \<lparr> timestamp = strftime now, valr_rate = v, market_rate = m,
        spread = (v / m - 1) * 100, initial_zar = ii, usd_purchased = usd,
        wire_fee = wire_transfer_fee usd,
        final_zar = usd_after_wire usd * sell_rate v - withdrawal_fee,
        profit_zar = usd_after_wire usd * sell_rate v - withdrawal_fee - ii,
        profit_percent =
          (if ii > 0 then (usd_after_wire usd * sell_rate v - withdrawal_fee - ii) / ii * 100
           else 0) \<rparr>)"
  using assms by (simp add: arb_profit_from_rates_def falsy_def bind_err_def py_div_def Let_def)

lemma from_rates_none:
  "falsy hb \<or> falsy mr \<Longrightarrow> arb_profit_from_rates ii now usd hb mr = Inr None"
  by (simp add: arb_profit_from_rates_def)

lemma from_rates_cases:
  "arb_profit_from_rates ii now usd hb mr = Inr None \<or>
   (\<exists>v m. hb = Some v \<and> mr = Some m \<and> v \<noteq> 0 \<and> m \<noteq> 0)"
  by (cases hb; cases mr) (auto simp: arb_profit_from_rates_def falsy_def)

lemma calculate_none:
  "falsy (get_valr_usdc_zar_rate pf (valr_reply w)) \<or> falsy (get_exchange_rate (fx_reply w))
   \<Longrightarrow> calculate_arb_profit pf eu ii w usd_arg = Inr None"
  by (simp add: calculate_arb_profit_def from_rates_none)

lemma example_report:
  "calculate_arb_profit example_parse_float eu ii example_world (Some 1000) =
     Inr (Some \<lparr> timestamp = 1700000000, valr_rate = 18.5, market_rate = 18.4,
        spread = 25 / 46, initial_zar = ii, usd_purchased = 1000, wire_fee = 10,
        final_zar = 18285.99, profit_zar = 18285.99 - ii,
        profit_percent = (if ii > 0 then (18285.99 - ii) / ii * 100 else 0) \<rparr>)"
  unfolding calculate_arb_profit_def Let_def example_valr_rate example_market_rate
  by (simp add: from_rates_report wire_transfer_fee_def usd_after_wire_def sell_rate_def
      tick_size_def withdrawal_fee_def strftime_def example_world_def)

text \<open>
  Claim C1. Whenever both fetchers return a positive rate, the calculator returns a report,
  for every amount (the argument, or the environment's value when there is none), and in
  that report \<open>wire_fee = max (0.0013 * usd_purchased) 10\<close>,
  \<open>final_zar = (usd_purchased - wire_fee) * (valr_rate + 0.001) - 30\<close>,
  \<open>profit_zar = final_zar - initial_investment\<close> and
  \<open>spread = (valr_rate / market_rate - 1) * 100\<close>.
\<close>

theorem calculate_arb_profit_formulas:
  assumes "get_valr_usdc_zar_rate pf (valr_reply w) = Some v"
    and "get_exchange_rate (fx_reply w) = Some m"
    and "0 < v" and "0 < m"
  shows "\<exists>r. calculate_arb_profit pf eu ii w usd_arg = Inr (Some r)
     \<and> usd_purchased r = (case usd_arg of None \<Rightarrow> eu | Some u \<Rightarrow> u)
     \<and> valr_rate r = v \<and> market_rate r = m
     \<and> wire_fee r = max (0.0013 * usd_purchased r) 10
     \<and> final_zar r = (usd_purchased r - wire_fee r) * (valr_rate r + 0.001) - 30
     \<and> profit_zar r = final_zar r - ii
     \<and> spread r = (valr_rate r / market_rate r - 1) * 100"
proof -
  from assms have nz: "v \<noteq> 0" "m \<noteq> 0" by simp_all
  let ?usd = "case usd_arg of None \<Rightarrow> eu | Some u \<Rightarrow> u"
  have run: "calculate_arb_profit pf eu ii w usd_arg =
      arb_profit_from_rates ii (clock w) ?usd (Some v) (Some m)"
    using assms(1,2) by (simp add: calculate_arb_profit_def)
  show ?thesis
    unfolding run from_rates_report [OF nz]
    by (rule exI, rule conjI, rule refl)
      (simp add: wire_transfer_fee_def usd_after_wire_def sell_rate_def tick_size_def
        withdrawal_fee_def)
qed

theorem calculate_arb_profit_formulas_witness:
  "get_valr_usdc_zar_rate example_parse_float (valr_reply example_world) = Some 18.5
   \<and> get_exchange_rate (fx_reply example_world) = Some 18.4
   \<and> (0::real) < 18.5 \<and> (0::real) < 18.4
   \<and> (\<exists>r. calculate_arb_profit example_parse_float 0 18000 example_world (Some 1000) =
           Inr (Some r)
     \<and> usd_purchased r = 1000
     \<and> valr_rate r = 18.5 \<and> market_rate r = 18.4
     \<and> wire_fee r = max (0.0013 * usd_purchased r) 10
     \<and> final_zar r = (usd_purchased r - wire_fee r) * (valr_rate r + 0.001) - 30
     \<and> profit_zar r = final_zar r - 18000
     \<and> spread r = (valr_rate r / market_rate r - 1) * 100)"
  using calculate_arb_profit_formulas
      [OF example_valr_rate example_market_rate, of 0 18000 "Some 1000"]
    example_valr_rate example_market_rate
  by simp

text \<open>
  Claim C2, as the specification states it, fails: on 1000 dollars the fee
  \<open>0.0013 * 1000 = 1.3\<close> is below the floor of 10, so the wire fee is 10 and not 13, and
  the figures that follow from it differ as well.
\<close>

theorem example_wire_fee_counterexample:
  "map_sum id (map_option wire_fee)
      (calculate_arb_profit example_parse_float 0 18000 example_world (Some 1000))
     \<noteq> Inr (Some 13)
   \<and> map_sum id (map_option final_zar)
      (calculate_arb_profit example_parse_float 0 18000 example_world (Some 1000))
     \<noteq> Inr (Some 18231.987)
   \<and> map_sum id (map_option profit_zar)
      (calculate_arb_profit example_parse_float 0 18000 example_world (Some 1000))
     \<noteq> Inr (Some 231.987)
   \<and> wire_transfer_fee 1000 \<noteq> 13 \<and> usd_after_wire 1000 \<noteq> 987"
  by (simp add: example_report wire_transfer_fee_def usd_after_wire_def)

text \<open>
  Claim C2, amended. With 1000 dollars, fetched rates 18.50 and 18.40 and an initial
  investment of 18000, the calculator computes a wire fee of 10, 990 dollars after the
  wire, a sell rate of 18.501, and reports \<open>final_zar = 18285.99\<close>,
  \<open>profit_zar = 285.99\<close> and \<open>spread = (18.50 / 18.40 - 1) * 100\<close>.
\<close>

theorem example_report_values:
  assumes "get_valr_usdc_zar_rate pf (valr_reply w) = Some 18.5"
    and "get_exchange_rate (fx_reply w) = Some 18.4"
  shows "wire_transfer_fee 1000 = 10 \<and> usd_after_wire 1000 = 990 \<and> sell_rate 18.5 = 18.501
    \<and> calculate_arb_profit pf eu 18000 w (Some 1000) =
       Inr (Some \<lparr> timestamp = strftime (clock w), valr_rate = 18.5, market_rate = 18.4,
        spread = (18.5 / 18.4 - 1) * 100, initial_zar = 18000, usd_purchased = 1000,
        wire_fee = 10, final_zar = 18285.99, profit_zar = 285.99,
        profit_percent = 285.99 / 18000 * 100 \<rparr>)"
  using assms
  by (simp add: calculate_arb_profit_def from_rates_report wire_transfer_fee_def
      usd_after_wire_def sell_rate_def tick_size_def withdrawal_fee_def)

theorem example_report_values_witness:
  "get_valr_usdc_zar_rate example_parse_float (valr_reply example_world) = Some 18.5
   \<and> get_exchange_rate (fx_reply example_world) = Some 18.4
   \<and> wire_transfer_fee 1000 = 10 \<and> usd_after_wire 1000 = 990 \<and> sell_rate 18.5 = 18.501
   \<and> calculate_arb_profit example_parse_float 0 18000 example_world (Some 1000) =
       Inr (Some \<lparr> timestamp = strftime (clock example_world), valr_rate = 18.5,
        market_rate = 18.4, spread = (18.5 / 18.4 - 1) * 100, initial_zar = 18000,
        usd_purchased = 1000, wire_fee = 10, final_zar = 18285.99, profit_zar = 285.99,
        profit_percent = 285.99 / 18000 * 100 \<rparr>)"
  using example_report_values [OF example_valr_rate example_market_rate, of 0]
    example_valr_rate example_market_rate
  by simp

text \<open>
  Claim C3. The calculator never leaves with an exception, so no division by zero is
  performed; and when the initial investment is not positive, the report it returns has
  \<open>profit_percent = 0\<close>, whatever the profit.
\<close>

theorem profit_percent_guarded:
  "calculate_arb_profit pf eu ii w usd_arg \<noteq> Inl e
   \<and> (ii \<le> 0 \<longrightarrow> calculate_arb_profit pf eu ii w usd_arg = Inr (Some r)
        \<longrightarrow> profit_percent r = 0)"
  unfolding calculate_arb_profit_def Let_def
  using from_rates_cases [of ii "clock w" "case usd_arg of None \<Rightarrow> eu | Some u \<Rightarrow> u"
      "get_valr_usdc_zar_rate pf (valr_reply w)" "get_exchange_rate (fx_reply w)"]
  by (auto simp: from_rates_report)

theorem profit_percent_guarded_witness:
  "(0::real) \<le> 0
   \<and> calculate_arb_profit example_parse_float 0 0 example_world (Some 1000) =
       Inr (Some \<lparr> timestamp = 1700000000, valr_rate = 18.5, market_rate = 18.4,
        spread = 25 / 46, initial_zar = 0, usd_purchased = 1000, wire_fee = 10,
        final_zar = 18285.99, profit_zar = 18285.99, profit_percent = 0 \<rparr>)
   \<and> profit_percent \<lparr> timestamp = 1700000000, valr_rate = 18.5, market_rate = 18.4,
        spread = 25 / 46, initial_zar = 0, usd_purchased = 1000, wire_fee = 10,
        final_zar = 18285.99, profit_zar = 18285.99, profit_percent = 0 \<rparr> = (0::real)"
  using profit_percent_guarded [of example_parse_float 0 0 example_world "Some 1000"]
    example_report [of 0 0]
  by simp

text \<open>
  Claim C8. When either fetcher returns \<^verbatim>\<open>None\<close>, the calculator returns \<^verbatim>\<open>None\<close>, and
  \<^verbatim>\<open>/get_profit_data\<close> leaves the globals, the history and every stored dictionary as
  they were and answers with the error body and status 500. (A query parameter that
  \<^verbatim>\<open>float\<close> rejects raises before any rate is fetched; the state is unchanged then too.
  Without a parameter nothing is parsed.)
\<close>

theorem unavailable_rate_no_report:
  assumes "get_valr_usdc_zar_rate pf (valr_reply w) = None
           \<or> get_exchange_rate (fx_reply w) = None"
  shows "calculate_arb_profit pf eu ii w usd_arg = Inr None
    \<and> fst (get_profit_data pf param w now_dt s) = s
    \<and> snd (get_profit_data pf param w now_dt s) =
        (case usd_purchased_value pf param (usd_purchased_global s) of
           Inl e \<Rightarrow> Inl e
         | Inr usd_value \<Rightarrow> Inr (Response 500 (ErrorBody ''Failed to calculate profit'')))
    \<and> usd_purchased_value pf None (usd_purchased_global s) = Inr (usd_purchased_global s)"
proof -
  from assms have f: "falsy (get_valr_usdc_zar_rate pf (valr_reply w))
      \<or> falsy (get_exchange_rate (fx_reply w))"
    by (auto simp: falsy_def)
  show ?thesis
    by (simp add: get_profit_data_def calculate_none [OF f] usd_purchased_value_def
        split: sum.split)
qed

theorem unavailable_rate_no_report_witness:
  "(get_valr_usdc_zar_rate example_parse_float (valr_reply failed_world) = None
      \<or> get_exchange_rate (fx_reply failed_world) = None)
   \<and> calculate_arb_profit example_parse_float 0 18000 failed_world (Some 1000) = Inr None
   \<and> fst (get_profit_data example_parse_float None failed_world 1700000000123999
            (init_state 18000 1000 None))
       = init_state 18000 1000 None
   \<and> snd (get_profit_data example_parse_float None failed_world 1700000000123999
            (init_state 18000 1000 None))
       = Inr (Response 500 (ErrorBody ''Failed to calculate profit''))"
proof -
  have h: "get_valr_usdc_zar_rate example_parse_float (valr_reply failed_world) = None
      \<or> get_exchange_rate (fx_reply failed_world) = None"
    by (simp add: failed_world_def get_exchange_rate_def)
  show ?thesis
    using h unavailable_rate_no_report [OF h, of 0 18000 "Some 1000" None 1700000000123999
        "init_state 18000 1000 None"]
    by (simp add: usd_purchased_value_def)
qed

lemma zero_bid_falsy:
  assumes "map_of kvs ''bidPrice'' = Some b" "bid_is_zero pf b"
  shows "falsy (get_valr_usdc_zar_rate pf (Body (JObj kvs)))"
  using assms by (cases b) (auto simp: get_valr_usdc_zar_rate_def bid_is_zero_def falsy_def)

text \<open>
  Claim C10. A rate that is exactly zero yields no report although nothing failed: the bid
  fetcher returns \<^verbatim>\<open>None\<close> on a \<^verbatim>\<open>bidPrice\<close> that is the number 0; the calculator's test
  \<^verbatim>\<open>not rate\<close> returns \<^verbatim>\<open>None\<close> when either fetched rate is 0; hence a market summary
  whose bid is numerically zero, as a number or as a string, gives no report.
\<close>

theorem zero_rate_no_report:
  "(map_of kvs ''bidPrice'' = Some (JNum 0)
      \<longrightarrow> get_valr_usdc_zar_rate pf (Body (JObj kvs)) = None)
   \<and> (hb = Some 0 \<or> mr = Some 0 \<longrightarrow> arb_profit_from_rates ii now usd hb mr = Inr None)
   \<and> (valr_reply w = Body (JObj kvs) \<and> map_of kvs ''bidPrice'' = Some b \<and> bid_is_zero pf b
        \<longrightarrow> calculate_arb_profit pf eu ii w usd_arg = Inr None)"
proof (intro conjI impI)
  assume "map_of kvs ''bidPrice'' = Some (JNum 0)"
  then show "get_valr_usdc_zar_rate pf (Body (JObj kvs)) = None"
    by (simp add: get_valr_usdc_zar_rate_def)
next
  assume "hb = Some 0 \<or> mr = Some 0"
  then have "falsy hb \<or> falsy mr" by (auto simp: falsy_def)
  then show "arb_profit_from_rates ii now usd hb mr = Inr None" by (rule from_rates_none)
next
  assume a: "valr_reply w = Body (JObj kvs) \<and> map_of kvs ''bidPrice'' = Some b
    \<and> bid_is_zero pf b"
  then have "falsy (get_valr_usdc_zar_rate pf (valr_reply w))"
    using zero_bid_falsy [of kvs b pf] by simp
  then show "calculate_arb_profit pf eu ii w usd_arg = Inr None"
    by (simp add: calculate_none)
qed

theorem zero_rate_no_report_witness:
  "map_of [(''bidPrice'', JNum 0)] ''bidPrice'' = Some (JNum 0)
   \<and> get_valr_usdc_zar_rate example_parse_float (Body (JObj [(''bidPrice'', JNum 0)])) = None
   \<and> (Some (18.5::real) = Some 0 \<or> Some (0::real) = Some 0)
   \<and> arb_profit_from_rates 18000 1700000000123456 1000 (Some 18.5) (Some 0) = Inr None
   \<and> valr_reply zero_bid_world = Body (JObj [(''bidPrice'', JStr ''0'')])
   \<and> map_of [(''bidPrice'', JStr ''0'')] ''bidPrice'' = Some (JStr ''0'')
   \<and> bid_is_zero example_parse_float (JStr ''0'')
   \<and> get_valr_usdc_zar_rate example_parse_float (valr_reply zero_bid_world) = Some 0
   \<and> calculate_arb_profit example_parse_float 0 18000 zero_bid_world (Some 1000) = Inr None"
  using zero_rate_no_report [where kvs = "[(''bidPrice'', JNum 0)]" and pf = example_parse_float
      and hb = "Some 18.5" and mr = "Some 0" and ii = 18000 and now = 1700000000123456
      and usd = 1000]
    zero_rate_no_report [where kvs = "[(''bidPrice'', JStr ''0'')]" and pf = example_parse_float
      and w = zero_bid_world and b = "JStr ''0''" and eu = 0 and ii = 18000
      and usd_arg = "Some 1000"]
  by (simp add: zero_bid_world_def example_world_def bid_is_zero_def example_parse_float_def
      get_valr_usdc_zar_rate_def)

section \<open>The history buffer\<close>

lemma del_datetime_idem: "del_datetime (del_datetime x) = del_datetime x"
  by (simp add: del_datetime_def)

lemma del_datetime_eq:
  "del_datetime x = \<lparr> item_report = item_report x, item_datetime = None \<rparr>"
  by (cases x) (simp add: del_datetime_def)

lemma fold_del_datetime:
  "fold (\<lambda>item h. h(item := del_datetime (h item))) xs h a =
     (if a \<in> set xs then del_datetime (h a) else h a)"
  by (induction xs arbitrary: h) (auto simp: del_datetime_idem)


lemma first_request_eq:
  "first_request = (init_state 18000 1000 None)
     \<lparr> heap := (heap (init_state 18000 1000 None))
         (0 := \<lparr> item_report = \<lparr> timestamp = 1700000000, valr_rate = 18.5, market_rate = 18.4,
                    spread = 25 / 46, initial_zar = 18000, usd_purchased = 1000, wire_fee = 10,
                    final_zar = 18285.99, profit_zar = 285.99,
                    profit_percent = 285.99 / 18000 * 100 \<rparr>,
                 item_datetime = Some 1700000000123999 \<rparr>),
       next_addr := 1, profit_history := [0] \<rparr>"
  unfolding first_request_def get_profit_data_def
  by (simp add: usd_purchased_value_def init_state_def example_report)

text \<open>
  Claim C7 does not hold of the code. After one request to \<^verbatim>\<open>/get_profit_data\<close> the history
  refers to one dictionary, which has the key \<^verbatim>\<open>'datetime'\<close>; after
  \<^verbatim>\<open>/get_profit_history\<close> the history refers to the same dictionary, and the key is
  gone from it: the handler copies the list, not the dictionaries.
\<close>

theorem get_profit_history_strips_stored_entry:
  "profit_history first_request = [0]
   \<and> item_datetime (heap first_request 0) = Some 1700000000123999
   \<and> profit_history (fst (get_profit_history first_request)) = [0]
   \<and> item_datetime (heap (fst (get_profit_history first_request)) 0) = None
   \<and> heap (fst (get_profit_history first_request)) 0 \<noteq> heap first_request 0"
  by (simp add: first_request_eq get_profit_history_def del_datetime_def)

lemma same_second_report:
  "calculate_arb_profit example_parse_float eu ii same_second_world None =
     Inr (Some \<lparr> timestamp = 1700000000, valr_rate = 18.5, market_rate = 18.4,
        spread = 25 / 46, initial_zar = ii, usd_purchased = eu,
        wire_fee = wire_transfer_fee eu,
        final_zar = usd_after_wire eu * 18.501 - 30,
        profit_zar = usd_after_wire eu * 18.501 - 30 - ii,
        profit_percent =
          (if ii > 0 then (usd_after_wire eu * 18.501 - 30 - ii) / ii * 100 else 0) \<rparr>)"
proof -
  have v: "get_valr_usdc_zar_rate example_parse_float (valr_reply same_second_world) = Some 18.5"
    using example_valr_rate by (simp add: same_second_world_def example_world_def)
  have m: "get_exchange_rate (fx_reply same_second_world) = Some 18.4"
    using example_market_rate by (simp add: same_second_world_def example_world_def)
  show ?thesis
    unfolding calculate_arb_profit_def Let_def v m
    by (simp add: from_rates_report sell_rate_def tick_size_def withdrawal_fee_def strftime_def
        same_second_world_def)
qed

text \<open>The handler does leave the state alone when the timestamp is already there.\<close>

lemma get_profit_data_duplicate:
  assumes "calculate_arb_profit pf (env_usd s) (initial_investment s) w
             (Some (usd_purchased_global s)) = Inr (Some r)"
    and "list_ex (\<lambda>a. timestamp (item_report (heap s a)) = timestamp r) (profit_history s)"
  shows "fst (get_profit_data pf None w now_dt s) = s"
  using assms by (simp add: get_profit_data_def usd_purchased_value_def)

text \<open>
  Claim C5 does not hold of the code. A request to \<^verbatim>\<open>/get_profit_data\<close> and a round of
  the polling loop in the same second leave two entries with the same timestamp in the
  history: the loop appends without looking for the timestamp.
\<close>

theorem polling_loop_duplicate_timestamp:
  "profit_history request_then_poll = [0, 1]
   \<and> timestamp (item_report (heap request_then_poll 0)) = 1700000000
   \<and> timestamp (item_report (heap request_then_poll 1)) = 1700000000"
proof -
  have eq: "request_then_poll =
      fst (update_profit_history example_parse_float same_second_world 1700000000700400
             first_request)"
    by (simp add: request_then_poll_def run_def first_request_def)
  show ?thesis
    unfolding eq
    by (simp add: first_request_eq update_profit_history_def same_second_report init_state_def)
qed

subsection \<open>The bound of 1000 entries\<close>

lemma update_profit_history_length:
  "length (profit_history s) \<le> 1000 \<Longrightarrow>
   length (profit_history (fst (update_profit_history pf w d s))) \<le> 1000"
  by (auto simp: update_profit_history_def Let_def split: sum.split option.split)

lemma get_profit_data_length:
  "length (profit_history s) \<le> 1000 \<Longrightarrow>
   length (profit_history (fst (get_profit_data pf p w d s))) \<le> 1000"
  by (auto simp: get_profit_data_def Let_def split: sum.split option.split)

lemma get_profit_history_list:
  "profit_history (fst (get_profit_history s)) = profit_history s"
  by (simp add: get_profit_history_def Let_def)

lemma update_settings_list:
  "profit_history (fst (update_settings pf fmt data s)) = profit_history s"
  by (auto simp: update_settings_def Let_def split: sum.split option.split)

lemma step_length:
  "length (profit_history s) \<le> 1000 \<Longrightarrow> length (profit_history (step pf fmt ev s)) \<le> 1000"
  by (cases ev)
    (simp_all add: update_profit_history_length get_profit_data_length get_profit_history_list
      update_settings_list)

lemma run_length:
  "length (profit_history s) \<le> 1000 \<Longrightarrow> length (profit_history (run pf fmt evs s)) \<le> 1000"
  unfolding run_def by (induction evs arbitrary: s) (simp_all add: step_length)

text \<open>After any sequence of rounds and requests the history has at most 1000 entries.\<close>

lemma profit_history_bounded:
  "length (profit_history (run pf fmt evs (init_state rands usd file))) \<le> 1000"
  by (rule run_length) (simp add: init_state_def)

subsection \<open>Which entry leaves\<close>

lemma dst_report:
  "calculate_arb_profit example_parse_float eu ii (example_world\<lparr> clock := c \<rparr>) None =
     Inr (Some \<lparr> timestamp = strftime c, valr_rate = 18.5, market_rate = 18.4,
        spread = (18.5 / 18.4 - 1) * 100, initial_zar = ii, usd_purchased = eu,
        wire_fee = wire_transfer_fee eu,
        final_zar = usd_after_wire eu * sell_rate 18.5 - withdrawal_fee,
        profit_zar = usd_after_wire eu * sell_rate 18.5 - withdrawal_fee - ii,
        profit_percent =
          (if ii > 0 then (usd_after_wire eu * sell_rate 18.5 - withdrawal_fee - ii) / ii * 100
           else 0) \<rparr>)"
proof -
  have v: "get_valr_usdc_zar_rate example_parse_float
      (valr_reply (example_world\<lparr> clock := c \<rparr>)) = Some 18.5"
    using example_valr_rate by simp
  have m: "get_exchange_rate (fx_reply (example_world\<lparr> clock := c \<rparr>)) = Some 18.4"
    using example_market_rate by simp
  show ?thesis
    unfolding calculate_arb_profit_def Let_def v m
    by (simp add: from_rates_report)
qed

lemma dst_poll_step:
  assumes "dst_inv n s" "n < 1000"
  shows "dst_inv (Suc n) (step example_parse_float example_fmt (dst_poll n) s)"
  using assms
  by (auto simp: dst_inv_def dst_poll_def update_profit_history_def dst_report Let_def
      less_Suc_eq)

lemma dst_run:
  "n \<le> 1000 \<Longrightarrow>
   dst_inv n (run example_parse_float example_fmt (map dst_poll [0..<n])
     (init_state 18000 1000 None))"
proof (induction n)
  case 0
  then show ?case by (simp add: run_def dst_inv_def init_state_def)
next
  case (Suc n)
  then have "dst_inv n (run example_parse_float example_fmt (map dst_poll [0..<n])
      (init_state 18000 1000 None))"
    and "n < 1000" by simp_all
  from dst_poll_step [OF this] show ?case by (simp add: run_def)
qed

lemma dst_full_inv: "dst_inv 1000 dst_full"
  unfolding dst_full_def by (rule dst_run) simp

text \<open>
  Claim C4 does not hold of the polling loop. After 1000 rounds of the loop across the end
  of daylight saving time the history is full; its first entry was captured at 01:58:00,
  its second at 01:03:01 on the clock set back. The next round keeps the last 1000
  entries of the list: the first entry leaves, and the entry with the least capture time
  stays.
\<close>

theorem polling_loop_evicts_front:
  "profit_history dst_full = [0..<1000]
   \<and> sort_datetime (heap dst_full 0) = 7080000250
   \<and> sort_datetime (heap dst_full 1) = 3781000250
   \<and> sort_datetime (heap dst_full 1) < sort_datetime (heap dst_full 0)
   \<and> profit_history dst_after = [1..<1001]
   \<and> heap dst_after 1 = heap dst_full 1"
proof -
  have inv: "dst_inv 1000 dst_full" by (rule dst_full_inv)
  then have h: "profit_history dst_full = [0..<1000]" "next_addr dst_full = 1000"
    and d0: "item_datetime (heap dst_full 0) = Some (dst_clock 0 + 250)"
    and d1: "item_datetime (heap dst_full 1) = Some (dst_clock 1 + 250)"
    by (simp_all add: dst_inv_def)
  have u: "[Suc 0..<1000] @ [1000] = [Suc 0..<1001]"
    using upt_Suc_append [of "Suc 0" 1000] by simp
  have after: "profit_history dst_after = [1..<1001] \<and> heap dst_after 1 = heap dst_full 1"
    by (simp add: dst_after_def dst_poll_def update_profit_history_def dst_report Let_def h u)
  show ?thesis
    using h(1) d0 d1 after by (simp add: sort_datetime_def dst_clock_def)
qed

subsection \<open>What each path removes\<close>

text \<open>
  On a full history the loop drops the first entry of the list; the handler drops an entry
  whose capture time is the least of all, the new entry included.
\<close>

lemma update_profit_history_evicts_front:
  assumes "calculate_arb_profit pf (env_usd s) (initial_investment s) w None = Inr (Some r)"
    and "length (profit_history s) = 1000"
  shows "profit_history (fst (update_profit_history pf w d s)) =
           tl (profit_history s) @ [next_addr s]"
  using assms by (cases "profit_history s") (simp_all add: update_profit_history_def Let_def)

lemma hd_sort_key_least:
  assumes "x \<in> set xs"
  shows "f (hd (sort_key f xs)) \<le> f x"
proof -
  let ?ys = "sort_key f xs"
  have ne: "?ys \<noteq> []" using assms by (metis empty_iff length_0_conv length_sort list.set(1))
  have s: "sorted (map f ?ys)" by simp
  have "x \<in> set ?ys" using assms by simp
  then show ?thesis using s ne
    by (cases ?ys) (auto simp del: set_sort sorted_sort_key)
qed

lemma get_profit_data_evicts_oldest:
  assumes "usd_purchased_value pf p (usd_purchased_global s) = Inr u"
    and "calculate_arb_profit pf (env_usd s) (initial_investment s) w (Some u) = Inr (Some r)"
    and "\<not> list_ex (\<lambda>a. timestamp (item_report (heap s a)) = timestamp r) (profit_history s)"
    and "length (profit_history s) = 1000"
    and "s' = fst (get_profit_data pf p w d s)"
  shows "\<exists>old. mset (profit_history s') + {#old#} = mset (profit_history s @ [next_addr s])
           \<and> (\<forall>a \<in> set (profit_history s @ [next_addr s]).
                 sort_datetime (heap s' old) \<le> sort_datetime (heap s' a))"
proof -
  let ?ph = "profit_history s @ [next_addr s]"
  let ?h = "(heap s)(next_addr s := \<lparr> item_report = r, item_datetime = Some d \<rparr>)"
  let ?srt = "sort_key (\<lambda>x. sort_datetime (?h x)) ?ph"
  have st: "profit_history s' = tl ?srt" "heap s' = ?h"
    using assms by (simp_all add: get_profit_data_def Let_def)
  have ne: "?srt \<noteq> []" by (metis length_0_conv length_sort snoc_eq_iff_butlast)
  have "mset (tl ?srt) + {#hd ?srt#} = mset ?srt" using ne by (cases ?srt) simp_all
  then have m: "mset (profit_history s') + {#hd ?srt#} = mset ?ph" by (simp add: st)
  have "\<forall>a \<in> set ?ph. sort_datetime (?h (hd ?srt)) \<le> sort_datetime (?h a)"
    using hd_sort_key_least [of _ ?ph "\<lambda>x. sort_datetime (?h x)"] by blast
  with m show ?thesis unfolding st(2) by blast
qed

subsection \<open>Chronological runs\<close>

text \<open>
  While the clock never goes back, the history stays in ascending order of capture time, also
  after \<^verbatim>\<open>/get_profit_history\<close> has deleted the key \<^verbatim>\<open>'datetime'\<close> from its entries; the
  first entry of the list is then an oldest one, and the loop removes it.
\<close>

lemma ordered_mono: "ordered t h n xs \<Longrightarrow> t \<le> t' \<Longrightarrow> ordered t' h n xs"
  by (auto simp: ordered_def list_all_iff)

lemma ordered_drop: "ordered t h n xs \<Longrightarrow> ordered t h n (drop k xs)"
  unfolding ordered_def list_all_iff
  by (auto simp: drop_map [symmetric] dest: in_set_dropD)

lemma ordered_tl: "ordered t h n xs \<Longrightarrow> ordered t h n (tl xs)"
  using ordered_drop [of t h n xs 1] by (simp add: drop_Suc)

lemma strftime_ge: "strptime ts \<le> c \<Longrightarrow> ts \<le> strftime c"
  unfolding strptime_def strftime_def
  using zdiv_mono1 [of "ts * 1000000" c 1000000] by simp

lemma strptime_strftime_le: "strptime (strftime c) \<le> c"
  unfolding strptime_def strftime_def by simp

lemma ordered_append:
  assumes "ordered t h n xs" "t \<le> c" "c \<le> d"
  shows "ordered d (h(n := \<lparr> item_report = r\<lparr> timestamp := strftime c \<rparr>, item_datetime = Some d \<rparr>))
           (Suc n) (xs @ [n])"
proof -
  let ?h = "h(n := \<lparr> item_report = r\<lparr> timestamp := strftime c \<rparr>, item_datetime = Some d \<rparr>)"
  have old: "\<And>a. a \<in> set xs \<Longrightarrow> ?h a = h a \<and> a < n \<and> sort_datetime (h a) \<le> t
      \<and> strptime (timestamp (item_report (h a))) \<le> t"
    using assms(1) by (auto simp: ordered_def list_all_iff)
  have m1: "map (\<lambda>a. sort_datetime (?h a)) xs = map (\<lambda>a. sort_datetime (h a)) xs"
    by (rule map_cong) (simp_all add: old del: fun_upd_apply)
  have m2: "map (\<lambda>a. timestamp (item_report (?h a))) xs = map (\<lambda>a. timestamp (item_report (h a))) xs"
    by (rule map_cong) (simp_all add: old del: fun_upd_apply)
  have ts: "\<And>a. a \<in> set xs \<Longrightarrow> timestamp (item_report (h a)) \<le> strftime c"
    using old assms(2) by (intro strftime_ge) force
  have new: "sort_datetime (?h n) = d" "timestamp (item_report (?h n)) = strftime c"
    by (simp_all add: sort_datetime_def)
  have pc: "strptime (strftime c) \<le> d" using strptime_strftime_le [of c] assms(3) by simp
  show ?thesis
    unfolding ordered_def
  proof (intro conjI)
    show "sorted (map (\<lambda>a. sort_datetime (?h a)) (xs @ [n]))"
    proof -
      have "\<And>a. a \<in> set xs \<Longrightarrow> sort_datetime (h a) \<le> d"
        using old assms(2,3) by force
      then show ?thesis
        using assms(1) new(1) by (auto simp: sorted_append m1 ordered_def simp del: fun_upd_apply)
    qed
    show "sorted (map (\<lambda>a. timestamp (item_report (?h a))) (xs @ [n]))"
      using assms(1) ts new(2) by (auto simp: sorted_append m2 ordered_def simp del: fun_upd_apply)
    show "list_all (\<lambda>a. a < Suc n \<and> sort_datetime (?h a) \<le> d
        \<and> strptime (timestamp (item_report (?h a))) \<le> d) (xs @ [n])"
      unfolding list_all_iff
    proof
      fix a assume "a \<in> set (xs @ [n])"
      then consider "a \<in> set xs" | "a = n" by auto
      then show "a < Suc n \<and> sort_datetime (?h a) \<le> d
        \<and> strptime (timestamp (item_report (?h a))) \<le> d"
      proof cases
        case 1
        with old [OF 1] assms(2,3) show ?thesis by (simp del: fun_upd_apply)
      next
        case 2
        then show ?thesis using new pc by (simp del: fun_upd_apply)
      qed
    qed
  qed
qed

lemma calculate_timestamp:
  assumes "calculate_arb_profit pf eu ii w usd_arg = Inr (Some r)"
  shows "r = r\<lparr> timestamp := strftime (clock w) \<rparr>"
  using assms
    from_rates_cases [of ii "clock w" "case usd_arg of None \<Rightarrow> eu | Some u \<Rightarrow> u"
      "get_valr_usdc_zar_rate pf (valr_reply w)" "get_exchange_rate (fx_reply w)"]
  unfolding calculate_arb_profit_def Let_def
  by (auto simp: from_rates_report)

lemma ordered_strip:
  assumes "ordered t h n xs" "set xs \<subseteq> set ys"
  shows "ordered t (fold (\<lambda>item h. h(item := del_datetime (h item))) ys h) n xs"
proof -
  let ?h = "fold (\<lambda>item h. h(item := del_datetime (h item))) ys h"
  have h': "\<And>a. a \<in> set xs \<Longrightarrow> ?h a = del_datetime (h a)"
    using assms(2) by (auto simp: fold_del_datetime)
  have k: "\<And>a. a \<in> set xs \<Longrightarrow> sort_datetime (?h a) = strptime (timestamp (item_report (h a)))"
    by (simp only: h') (simp add: del_datetime_eq sort_datetime_def)
  have ts: "\<And>a. a \<in> set xs \<Longrightarrow> timestamp (item_report (?h a)) = timestamp (item_report (h a))"
    by (simp only: h') (simp add: del_datetime_eq)
  have m1: "map (\<lambda>a. sort_datetime (?h a)) xs = map (\<lambda>a. strptime (timestamp (item_report (h a)))) xs"
    by (rule map_cong) (simp_all add: k)
  have m2: "map (\<lambda>a. timestamp (item_report (?h a))) xs = map (\<lambda>a. timestamp (item_report (h a))) xs"
    by (rule map_cong) (simp_all add: ts)
  have "sorted (map (\<lambda>a. timestamp (item_report (h a))) xs)"
    using assms(1) by (simp add: ordered_def)
  then have s1: "sorted (map (\<lambda>a. strptime (timestamp (item_report (h a)))) xs)"
    unfolding sorted_map by (rule sorted_wrt_mono_rel [rotated]) (simp add: strptime_def)
  show ?thesis
    unfolding ordered_def m1 m2
    using assms(1) s1 by (auto simp: ordered_def list_all_iff k ts)
qed

lemma get_profit_history_ordered:
  "ordered_state t s \<Longrightarrow> ordered_state t (fst (get_profit_history s))"
  unfolding ordered_state_def
  by (simp add: get_profit_history_def Let_def ordered_strip)

lemma update_settings_ordered:
  "ordered_state t s \<Longrightarrow> ordered_state t (fst (update_settings pf fmt data s))"
  unfolding ordered_state_def
  by (auto simp: update_settings_def Let_def split: sum.split option.split)

lemma update_profit_history_ordered:
  assumes "ordered_state t s" "t \<le> clock w" "clock w \<le> d"
  shows "ordered_state d (fst (update_profit_history pf w d s))"
proof (cases "calculate_arb_profit pf (env_usd s) (initial_investment s) w None")
  case (Inl e)
  then show ?thesis using assms
    by (auto simp: update_profit_history_def ordered_state_def intro: ordered_mono)
next
  case (Inr res)
  show ?thesis
  proof (cases res)
    case None
    with Inr show ?thesis using assms
      by (auto simp: update_profit_history_def ordered_state_def intro: ordered_mono)
  next
    case (Some r)
    with Inr have c: "calculate_arb_profit pf (env_usd s) (initial_investment s) w None = Inr (Some r)"
      by simp
    have r: "r = r\<lparr> timestamp := strftime (clock w) \<rparr>" by (rule calculate_timestamp [OF c])
    have a: "ordered d ((heap s)(next_addr s := \<lparr> item_report = r, item_datetime = Some d \<rparr>))
        (Suc (next_addr s)) (profit_history s @ [next_addr s])"
      using ordered_append [OF assms(1) [unfolded ordered_state_def] assms(2,3), of r] r by simp
    show ?thesis
      unfolding ordered_state_def
      using a ordered_drop [OF a, of "length (profit_history s) - 999"]
      by (simp add: update_profit_history_def c Let_def)
  qed
qed

lemma get_profit_data_ordered:
  assumes "ordered_state t s" "t \<le> clock w" "clock w \<le> d"
  shows "ordered_state d (fst (get_profit_data pf p w d s))"
proof -
  have same: "ordered_state d s" using assms unfolding ordered_state_def
    by (auto intro: ordered_mono)
  show ?thesis
  proof (cases "usd_purchased_value pf p (usd_purchased_global s)")
    case (Inl e)
    then show ?thesis using same by (simp add: get_profit_data_def)
  next
    case (Inr u)
    note u = this
    show ?thesis
    proof (cases "calculate_arb_profit pf (env_usd s) (initial_investment s) w (Some u)")
      case (Inl e)
      then show ?thesis using same u by (simp add: get_profit_data_def)
    next
      case (Inr res)
      show ?thesis
      proof (cases res)
        case None
        with Inr show ?thesis using same u by (simp add: get_profit_data_def)
      next
        case (Some r)
        with Inr have c: "calculate_arb_profit pf (env_usd s) (initial_investment s) w (Some u) = Inr (Some r)"
          by simp
        have r: "r = r\<lparr> timestamp := strftime (clock w) \<rparr>" by (rule calculate_timestamp [OF c])
        let ?h = "(heap s)(next_addr s := \<lparr> item_report = r, item_datetime = Some d \<rparr>)"
        let ?ph = "profit_history s @ [next_addr s]"
        have a: "ordered d ?h (Suc (next_addr s)) ?ph"
          using ordered_append [OF assms(1) [unfolded ordered_state_def] assms(2,3), of r] r by simp
        then have "sorted (map (\<lambda>x. sort_datetime (?h x)) ?ph)" by (simp add: ordered_def)
        then have srt: "sort_key (\<lambda>x. sort_datetime (?h x)) ?ph = ?ph"
          by (rule sort_key_id_if_sorted)
        show ?thesis
          unfolding ordered_state_def
          using a ordered_tl [OF a] same [unfolded ordered_state_def]
          by (simp add: get_profit_data_def u c Let_def srt del: sort_key_simps fun_upd_apply)
      qed
    qed
  qed
qed

lemma run_ordered:
  "chronological t evs \<Longrightarrow> ordered_state t s \<Longrightarrow>
   ordered_state (last_reading t evs) (run pf fmt evs s)"
proof (induction evs arbitrary: t s)
  case Nil
  then show ?case by (simp add: run_def)
next
  case (Cons ev evs)
  have rec: "\<And>t' s'. chronological t' evs \<Longrightarrow> ordered_state t' s' \<Longrightarrow>
      ordered_state (last_reading t' evs) (fold (step pf fmt) evs s')"
    using Cons.IH by (simp add: run_def)
  show ?case
  proof (cases ev)
    case (Poll w d)
    with Cons.prems have c: "t \<le> clock w" "clock w \<le> d" "chronological d evs"
      by simp_all
    from rec [OF c(3) update_profit_history_ordered [OF Cons.prems(2) c(1,2)]]
    show ?thesis by (simp add: run_def Poll)
  next
    case (GetProfitData p w d)
    with Cons.prems have c: "t \<le> clock w" "clock w \<le> d" "chronological d evs"
      by simp_all
    from rec [OF c(3) get_profit_data_ordered [OF Cons.prems(2) c(1,2)]]
    show ?thesis by (simp add: run_def GetProfitData)
  next
    case GetProfitHistory
    with Cons.prems have c: "chronological t evs" by simp
    from rec [OF c get_profit_history_ordered [OF Cons.prems(2)]]
    show ?thesis by (simp add: run_def GetProfitHistory)
  next
    case (UpdateSettings data)
    with Cons.prems have c: "chronological t evs" by simp
    from rec [OF c update_settings_ordered [OF Cons.prems(2)]]
    show ?thesis by (simp add: run_def UpdateSettings)
  qed
qed

lemma init_ordered: "ordered_state t (init_state rands usd file)"
  by (simp add: ordered_state_def ordered_def init_state_def)

lemma chronological_append:
  "chronological t (evs @ evs') \<longleftrightarrow>
     chronological t evs \<and> chronological (last_reading t evs) evs'"
  by (induction t evs rule: chronological.induct) simp_all

text \<open>When clock readings never decrease, the front of a full history is the oldest.\<close>

lemma chronological_poll_evicts_oldest:
  assumes "chronological t (evs @ [Poll w d])"
    and "s = run pf fmt evs (init_state rands usd file)"
    and "calculate_arb_profit pf (env_usd s) (initial_investment s) w None = Inr (Some r)"
    and "length (profit_history s) = 1000"
    and "s' = fst (update_profit_history pf w d s)"
  shows "profit_history s' = tl (profit_history s) @ [next_addr s]
    \<and> (\<forall>a \<in> set (profit_history s @ [next_addr s]).
          sort_datetime (heap s' (hd (profit_history s))) \<le> sort_datetime (heap s' a))"
proof -
  let ?t = "last_reading t evs"
  from assms(1) have ch: "chronological t evs" and le: "?t \<le> clock w" "clock w \<le> d"
    by (simp_all add: chronological_append)
  have o: "ordered_state ?t s"
    unfolding assms(2) by (rule run_ordered [OF ch init_ordered])
  have rr: "r = r\<lparr> timestamp := strftime (clock w) \<rparr>" by (rule calculate_timestamp [OF assms(3)])
  let ?h = "(heap s)(next_addr s := \<lparr> item_report = r, item_datetime = Some d \<rparr>)"
  have a: "ordered d ?h (Suc (next_addr s)) (profit_history s @ [next_addr s])"
    using ordered_append [OF o [unfolded ordered_state_def] le, of r] rr by simp
  have hp: "heap s' = ?h"
    by (simp add: assms(5) update_profit_history_def assms(3) Let_def)
  obtain x xs where xs: "profit_history s = x # xs"
    using assms(4) by (cases "profit_history s") simp_all
  have srt: "sorted (map (\<lambda>a. sort_datetime (?h a)) (x # xs @ [next_addr s]))"
    using a by (simp add: ordered_def xs)
  have front: "profit_history s' = tl (profit_history s) @ [next_addr s]"
    unfolding assms(5) by (rule update_profit_history_evicts_front [OF assms(3,4)])
  show ?thesis
    using front srt unfolding hp xs by (auto simp del: fun_upd_apply)
qed

section \<open>Settings\<close>




end
